theory Spec2Isabelle
  imports Main "HOL-Library.Multiset"
begin

section \<open>Drinks (drinks.py, classes Drink, Juice, DataCola, EnergyDrink, Water)\<close>

text \<open>
  Python integers are unbounded, so \<open>volume\<close>, \<open>expiration\<close>, \<open>caffeine_mg\<close>, the machine's
  capacity and list indices are \<^typ>\<open>int\<close>. Exceptions are values of \<open>error\<close>; a function
  whose body can raise returns \<open>error + 'a\<close> with \<open>Inl\<close> for the exception. \<open>ValueError\<close>
  carries the offending container string that the message interpolates.
\<close>

datatype error = ValueError string | IndexError

text \<open>The five classes of the module; \<open>self.__class__\<close> of an object is one of them.\<close>

datatype drink_class = Drink | Juice | DataCola | EnergyDrink | Water

text \<open>
  The attributes a subclass adds to the two of the base class: \<open>fruit_type\<close> (Juice),
  \<open>container\<close> (DataCola), \<open>caffeine_mg\<close> and \<open>sugar_free\<close> (EnergyDrink), \<open>sparkling\<close> (Water).
\<close>

datatype attrs =
    Drink_attrs
  | Juice_attrs string
  | DataCola_attrs string
  | EnergyDrink_attrs int bool
  | Water_attrs bool

record drink =
  volume :: int
  expiration :: int
  attrs :: attrs

fun class_of :: "drink \<Rightarrow> drink_class" where
  "class_of d =
     (case attrs d of
        Drink_attrs \<Rightarrow> Drink
      | Juice_attrs _ \<Rightarrow> Juice
      | DataCola_attrs _ \<Rightarrow> DataCola
      | EnergyDrink_attrs _ _ \<Rightarrow> EnergyDrink
      | Water_attrs _ \<Rightarrow> Water)"

text \<open>
  The method resolution order of each class inside the module (every subclass is declared
  \<open>class X(Drink)\<close>), and \<open>isinstance\<close> as Python computes it: the class is in the order of
  the object's class.
\<close>

fun mro :: "drink_class \<Rightarrow> drink_class list" where
  "mro Drink = [Drink]"
| "mro Juice = [Juice, Drink]"
| "mro DataCola = [DataCola, Drink]"
| "mro EnergyDrink = [EnergyDrink, Drink]"
| "mro Water = [Water, Drink]"

definition isinstance :: "drink \<Rightarrow> drink_class \<Rightarrow> bool" where
  "isinstance d t = (t \<in> set (mro (class_of d)))"

text \<open>
  What the module prints. Each notice stands for one \<open>print\<close> call and carries the values
  its f-string interpolates (the drink as a value instead of its \<open>__str__\<close> rendering).
\<close>

datatype notice =
    Warning_already_expired drink_class
  | Added drink string
  | Cannot_add drink string
  | Removed drink string
  | Invalid_index int
  | Removed_expired nat string
  | No_expired string
  | All_aged string

subsection \<open>Construction\<close>

text \<open>
  \<open>X_init\<close> is the call \<open>X(...)\<close>: the object that \<open>X.__init__\<close> leaves behind, the
  assignments of \<open>super().__init__\<close> included. Only \<open>DataCola.__init__\<close> has a \<open>raise\<close>.
  A call that omits a defaulted parameter passes the default written below.
\<close>

definition Drink_init :: "int \<Rightarrow> int \<Rightarrow> drink" where
  "Drink_init vol exp = \<lparr>volume = vol, expiration = exp, attrs = Drink_attrs\<rparr>"

definition Juice_DEFAULT_EXPIRATION :: int where
  "Juice_DEFAULT_EXPIRATION = 7"

definition Juice_fruit_type_default :: string where
  "Juice_fruit_type_default = ''Mixed''"

definition Juice_init :: "int \<Rightarrow> string \<Rightarrow> drink" where
  "Juice_init vol fruit =
     (Drink_init vol Juice_DEFAULT_EXPIRATION)\<lparr>attrs := Juice_attrs fruit\<rparr>"

text \<open>The class constant \<open>CONTAINER_SPECS\<close>: each inner dict as the pair (volume, expiration).\<close>

definition CONTAINER_SPECS :: "string \<rightharpoonup> int \<times> int" where
  "CONTAINER_SPECS = map_of [(''can'', (330, 60)), (''bottle'', (500, 30))]"

definition DataCola_init :: "string \<Rightarrow> error + drink" where
  "DataCola_init cont =
     (case CONTAINER_SPECS cont of
        None \<Rightarrow> Inl (ValueError cont)
      | Some (vol, exp) \<Rightarrow> Inr ((Drink_init vol exp)\<lparr>attrs := DataCola_attrs cont\<rparr>))"

definition EnergyDrink_caffeine_mg_default :: int where
  "EnergyDrink_caffeine_mg_default = 80"

definition EnergyDrink_sugar_free_default :: bool where
  "EnergyDrink_sugar_free_default = False"

definition EnergyDrink_init :: "int \<Rightarrow> int \<Rightarrow> int \<Rightarrow> bool \<Rightarrow> drink" where
  "EnergyDrink_init vol exp caffeine sugarfree =
     (Drink_init vol exp)\<lparr>attrs := EnergyDrink_attrs caffeine sugarfree\<rparr>"

definition Water_DEFAULT_EXPIRATION :: int where
  "Water_DEFAULT_EXPIRATION = 365"

definition Water_sparkling_default :: bool where
  "Water_sparkling_default = False"

definition Water_init :: "int \<Rightarrow> bool \<Rightarrow> drink" where
  "Water_init vol spark =
     (Drink_init vol Water_DEFAULT_EXPIRATION)\<lparr>attrs := Water_attrs spark\<rparr>"

text \<open>A constructor call of the module as data, and its outcome.\<close>

datatype ctor_call =
    Call_Drink int int
  | Call_Juice int string
  | Call_DataCola string
  | Call_EnergyDrink int int int bool
  | Call_Water int bool

fun construct :: "ctor_call \<Rightarrow> error + drink" where
  "construct (Call_Drink vol exp) = Inr (Drink_init vol exp)"
| "construct (Call_Juice vol fruit) = Inr (Juice_init vol fruit)"
| "construct (Call_DataCola cont) = DataCola_init cont"
| "construct (Call_EnergyDrink vol exp caffeine sugarfree) =
     Inr (EnergyDrink_init vol exp caffeine sugarfree)"
| "construct (Call_Water vol spark) = Inr (Water_init vol spark)"

subsection \<open>Ageing and expiry\<close>

text \<open>\<open>Drink.next_day\<close>: the object after the call and what the call printed.\<close>

definition Drink_next_day :: "drink \<Rightarrow> drink \<times> notice list" where
  "Drink_next_day d =
     (if expiration d > 0 then (d\<lparr>expiration := expiration d - 1\<rparr>, [])
      else (d, [Warning_already_expired (class_of d)]))"

definition Drink_is_expired :: "drink \<Rightarrow> bool" where
  "Drink_is_expired d = (expiration d \<le> 0)"

text \<open>The object after \<open>n\<close> calls of \<open>next_day\<close> in a row.\<close>

definition aged :: "nat \<Rightarrow> drink \<Rightarrow> drink" where
  "aged n d = ((\<lambda>x. fst (Drink_next_day x)) ^^ n) d"

section \<open>The vending machine (class VendingMachine)\<close>

text \<open>
  Drinks are mutable objects that the machine holds by reference: the same object can sit in
  a machine twice, or in two machines. So \<open>content\<close> is a list of references and the objects
  live in a store. Every reference denotes an object, as in Python.
\<close>

type_synonym ref = nat

type_synonym store = "ref \<Rightarrow> drink"

record machine =
  content :: "ref list"
  size_vm :: int
  name :: string

text \<open>
  Python's \<open>xs[i]\<close> and \<open>xs.pop(i)\<close> on a list of length \<open>n\<close>: the indices \<open>0 .. n - 1\<close>
  denote the positions themselves, the indices \<open>- n .. - 1\<close> count from the end, and every
  other index raises \<open>IndexError\<close>. \<open>pop\<close> returns the element and leaves the list without it.
\<close>

definition py_index :: "nat \<Rightarrow> int \<Rightarrow> nat option" where
  "py_index n i =
     (if 0 \<le> i \<and> i < int n then Some (nat i)
      else if - int n \<le> i \<and> i < 0 then Some (nat (int n + i))
      else None)"

definition py_getitem :: "'a list \<Rightarrow> int \<Rightarrow> error + 'a" where
  "py_getitem xs i =
     (case py_index (length xs) i of
        None \<Rightarrow> Inl IndexError
      | Some k \<Rightarrow> Inr (xs ! k))"

definition py_pop :: "'a list \<Rightarrow> int \<Rightarrow> error + ('a \<times> 'a list)" where
  "py_pop xs i =
     (case py_index (length xs) i of
        None \<Rightarrow> Inl IndexError
      | Some k \<Rightarrow> Inr (xs ! k, take k xs @ drop (Suc k) xs))"

definition VendingMachine_init :: "int \<Rightarrow> string \<Rightarrow> machine" where
  "VendingMachine_init sz nm = \<lparr>content = [], size_vm = sz, name = nm\<rparr>"

definition VendingMachine_name_default :: string where
  "VendingMachine_name_default = ''Vending Machine''"

definition VendingMachine_add :: "machine \<Rightarrow> store \<Rightarrow> ref \<Rightarrow> bool \<times> machine \<times> notice list" where
  "VendingMachine_add m s d =
     (if int (length (content m)) < size_vm m
      then (True, m\<lparr>content := content m @ [d]\<rparr>, [Added (s d) (name m)])
      else (False, m, [Cannot_add (s d) (name m)]))"

definition VendingMachine_remove ::
    "machine \<Rightarrow> store \<Rightarrow> int \<Rightarrow> error + (ref option \<times> machine \<times> notice list)" where
  "VendingMachine_remove m s i =
     (if 0 \<le> i \<and> i < int (length (content m))
      then (case py_pop (content m) i of
              Inl e \<Rightarrow> Inl e
            | Inr (removed_drink, c) \<Rightarrow>
                Inr (Some removed_drink, m\<lparr>content := c\<rparr>, [Removed (s removed_drink) (name m)]))
      else Inr (None, m, [Invalid_index i]))"

text \<open>
  The loop of \<open>verify\<close> over the indices \<open>range(len(self.content) - 1, -1, -1)\<close>, which Python
  fixes before the first iteration; the state is (\<open>self.content\<close>, \<open>expired_drinks\<close>).
\<close>

fun verify_loop :: "store \<Rightarrow> nat list \<Rightarrow> ref list \<times> ref list \<Rightarrow> error + (ref list \<times> ref list)" where
  "verify_loop s [] st = Inr st"
| "verify_loop s (i # idx) (c, expired_drinks) =
     (case py_getitem c (int i) of
        Inl e \<Rightarrow> Inl e
      | Inr d \<Rightarrow>
          if Drink_is_expired (s d)
          then (case py_pop c (int i) of
                  Inl e \<Rightarrow> Inl e
                | Inr (x, c') \<Rightarrow> verify_loop s idx (c', expired_drinks @ [x]))
          else verify_loop s idx (c, expired_drinks))"

definition VendingMachine_verify ::
    "machine \<Rightarrow> store \<Rightarrow> error + (ref list \<times> machine \<times> notice list)" where
  "VendingMachine_verify m s =
     (case verify_loop s (rev [0 ..< length (content m)]) (content m, []) of
        Inl e \<Rightarrow> Inl e
      | Inr (c, expired_drinks) \<Rightarrow>
          Inr (expired_drinks, m\<lparr>content := c\<rparr>,
               [if expired_drinks \<noteq> [] then Removed_expired (length expired_drinks) (name m)
                else No_expired (name m)]))"

text \<open>
  \<open>VendingMachine.next_day\<close>: the loop calls \<open>next_day\<close> on the object behind each reference
  in turn, so an object that is in \<open>content\<close> twice is aged twice.
\<close>

fun next_day_loop :: "ref list \<Rightarrow> store \<times> notice list \<Rightarrow> store \<times> notice list" where
  "next_day_loop [] st = st"
| "next_day_loop (r # rs) (s, out) =
     (case Drink_next_day (s r) of (d, w) \<Rightarrow> next_day_loop rs (s(r := d), out @ w))"

definition VendingMachine_next_day :: "machine \<Rightarrow> store \<Rightarrow> machine \<times> store \<times> notice list" where
  "VendingMachine_next_day m s =
     (case next_day_loop (content m) (s, []) of
        (s', out) \<Rightarrow> (m, s', out @ [All_aged (name m)]))"

subsection \<open>Queries\<close>

fun class_name :: "drink_class \<Rightarrow> string" where
  "class_name Drink = ''Drink''"
| "class_name Juice = ''Juice''"
| "class_name DataCola = ''DataCola''"
| "class_name EnergyDrink = ''EnergyDrink''"
| "class_name Water = ''Water''"

fun get_inventory_loop :: "store \<Rightarrow> ref list \<Rightarrow> (string \<rightharpoonup> int) \<Rightarrow> (string \<rightharpoonup> int)" where
  "get_inventory_loop s [] inventory = inventory"
| "get_inventory_loop s (r # rs) inventory =
     (let drink_type = class_name (class_of (s r))
      in get_inventory_loop s rs
           (inventory(drink_type \<mapsto> (case inventory drink_type of None \<Rightarrow> 0 | Some k \<Rightarrow> k) + 1)))"

definition VendingMachine_get_inventory :: "machine \<Rightarrow> store \<Rightarrow> (string \<rightharpoonup> int)" where
  "VendingMachine_get_inventory m s = get_inventory_loop s (content m) Map.empty"

definition VendingMachine_find_by_type :: "machine \<Rightarrow> store \<Rightarrow> drink_class \<Rightarrow> ref list" where
  "VendingMachine_find_by_type m s drink_type =
     filter (\<lambda>r. isinstance (s r) drink_type) (content m)"

definition VendingMachine_total_volume :: "machine \<Rightarrow> store \<Rightarrow> int" where
  "VendingMachine_total_volume m s = sum_list (map (\<lambda>r. volume (s r)) (content m))"

definition VendingMachine_len :: "machine \<Rightarrow> int" where
  "VendingMachine_len m = int (length (content m))"

subsection \<open>Sequences of calls\<close>

text \<open>
  A caller's use of one machine: any sequence of method calls on it, and calls of
  \<open>next_day\<close> on a drink directly. A raised exception ends the sequence. The queries
  assign to no attribute, so the machine and the store after them are the ones before.
\<close>

datatype call =
    Call_add ref
  | Call_remove int
  | Call_verify
  | Call_next_day
  | Call_get_inventory
  | Call_find_by_type drink_class
  | Call_total_volume
  | Call_len
  | Call_drink_next_day ref

fun step :: "call \<Rightarrow> machine \<times> store \<Rightarrow> error + (machine \<times> store)" where
  "step (Call_add d) (m, s) = (case VendingMachine_add m s d of (_, m', _) \<Rightarrow> Inr (m', s))"
| "step (Call_remove i) (m, s) =
     (case VendingMachine_remove m s i of Inl e \<Rightarrow> Inl e | Inr (_, m', _) \<Rightarrow> Inr (m', s))"
| "step Call_verify (m, s) =
     (case VendingMachine_verify m s of Inl e \<Rightarrow> Inl e | Inr (_, m', _) \<Rightarrow> Inr (m', s))"
| "step Call_next_day (m, s) =
     (case VendingMachine_next_day m s of (m', s', _) \<Rightarrow> Inr (m', s'))"
| "step Call_get_inventory (m, s) =
     (let inventory = VendingMachine_get_inventory m s in Inr (m, s))"
| "step (Call_find_by_type t) (m, s) =
     (let found = VendingMachine_find_by_type m s t in Inr (m, s))"
| "step Call_total_volume (m, s) =
     (let total = VendingMachine_total_volume m s in Inr (m, s))"
| "step Call_len (m, s) = (let n = VendingMachine_len m in Inr (m, s))"
| "step (Call_drink_next_day r) (m, s) = Inr (m, s(r := fst (Drink_next_day (s r))))"

fun run :: "call list \<Rightarrow> machine \<times> store \<Rightarrow> error + (machine \<times> store)" where
  "run [] st = Inr st"
| "run (c # cs) st = (case step c st of Inl e \<Rightarrow> Inl e | Inr st' \<Rightarrow> run cs st')"

subsection \<open>The spec's reading of find-by-variant\<close>

text \<open>
  The spec words \<open>findByVariant\<close> as a filter on the concrete variant of each item: an item
  matches when its own class is the tag, whatever that class inherits from. This definition
  follows those words, to be compared with \<open>VendingMachine_find_by_type\<close> above.
\<close>

definition findByVariant_spec :: "machine \<Rightarrow> store \<Rightarrow> drink_class \<Rightarrow> ref list" where
  "findByVariant_spec m s variantTag = filter (\<lambda>r. class_of (s r) = variantTag) (content m)"

subsection \<open>A stocked machine\<close>

text \<open>
  Four objects in the manner of \<open>example_2_vending_machine\<close>, two of them past their date
  (nothing validates \<open>expiration\<close> at construction), and the machine that holds them.
\<close>

definition campus_store :: store where
  "campus_store r =
     (if r = 0 then Drink_init 350 0
      else if r = 1 then Juice_init 500 ''Grape''
      else if r = 2 then EnergyDrink_init 250 (- 1) 150 True
      else Water_init 500 True)"

definition campus_machine :: machine where
  "campus_machine = \<lparr>content = [0, 1, 2, 3], size_vm = 6, name = ''Campus Vending Machine''\<rparr>"

section \<open>Properties\<close>

subsection \<open>Auxiliary facts about ageing\<close>

lemma expiration_aged:
  "expiration (aged n d) =
     (if expiration d \<le> 0 then expiration d else max 0 (expiration d - int n))"
proof (induction n)
  case 0
  then show ?case by (simp add: aged_def)
next
  case (Suc n)
  then show ?case by (auto simp: aged_def Drink_next_day_def)
qed

lemma aged_add: "aged (k + n) d = aged n (aged k d)"
  using funpow_add [of n k "\<lambda>x. fst (Drink_next_day x)"]
  by (simp add: aged_def add.commute)

lemma aged_Suc: "aged (Suc n) d = aged n (fst (Drink_next_day d))"
  by (simp add: aged_def funpow_Suc_right del: funpow.simps)

lemma aged_upd:
  "aged (count_list xs x) ((s(r := fst (Drink_next_day (s r)))) x) =
   aged (count_list (r # xs) x) (s x)"
  by (simp add: aged_Suc)

lemma aged_expired: "Drink_is_expired d \<Longrightarrow> aged n d = d"
  by (induction n) (simp_all add: aged_def Drink_is_expired_def Drink_next_day_def)

subsection \<open>Auxiliary facts about the machine's loops\<close>

lemma py_getitem_nat: "i < length xs \<Longrightarrow> py_getitem xs (int i) = Inr (xs ! i)"
  by (simp add: py_getitem_def py_index_def)

lemma py_pop_nat:
  "i < length xs \<Longrightarrow> py_pop xs (int i) = Inr (xs ! i, take i xs @ drop (Suc i) xs)"
  by (simp add: py_pop_def py_index_def)

text \<open>
  The loop invariant of \<open>verify\<close>: with the indices below \<open>k\<close> still to visit, the part of
  the list from \<open>k\<close> on is already filtered, and the rest is filtered from the back.
\<close>

lemma verify_loop_prefix:
  "length pre = k \<Longrightarrow>
   verify_loop s (rev [0 ..< k]) (pre @ post, acc) =
     Inr (filter (\<lambda>r. \<not> Drink_is_expired (s r)) pre @ post,
          acc @ rev (filter (\<lambda>r. Drink_is_expired (s r)) pre))"
proof (induction k arbitrary: pre post acc)
  case 0
  then show ?case by simp
next
  case (Suc k)
  from Suc.prems obtain pre' x where pre: "pre = pre' @ [x]" and len: "length pre' = k"
    by (cases pre rule: rev_cases) auto
  have get: "py_getitem (pre @ post) (int k) = Inr x"
    using len by (simp add: pre py_getitem_nat nth_append)
  have pop: "py_pop (pre @ post) (int k) = Inr (x, pre' @ post)"
    using len by (simp add: pre py_pop_nat nth_append)
  show ?case
  proof (cases "Drink_is_expired (s x)")
    case True
    with get pop Suc.IH [OF len, of post "acc @ [x]"] show ?thesis
      by (simp add: pre)
  next
    case False
    with get Suc.IH [OF len, of "x # post" acc] show ?thesis
      by (simp add: pre)
  qed
qed

lemma verify_result:
  "VendingMachine_verify m s =
     Inr (rev (filter (\<lambda>r. Drink_is_expired (s r)) (content m)),
          m\<lparr>content := filter (\<lambda>r. \<not> Drink_is_expired (s r)) (content m)\<rparr>,
          [if filter (\<lambda>r. Drink_is_expired (s r)) (content m) \<noteq> []
           then Removed_expired (length (filter (\<lambda>r. Drink_is_expired (s r)) (content m))) (name m)
           else No_expired (name m)])"
  using verify_loop_prefix [of "content m" "length (content m)" s "[]" "[]"]
  by (simp add: VendingMachine_verify_def)

lemma remove_result:
  "VendingMachine_remove m s i =
     (if 0 \<le> i \<and> i < int (length (content m))
      then Inr (Some (content m ! nat i),
                m\<lparr>content := take (nat i) (content m) @ drop (Suc (nat i)) (content m)\<rparr>,
                [Removed (s (content m ! nat i)) (name m)])
      else Inr (None, m, [Invalid_index i]))"
  by (simp add: VendingMachine_remove_def py_pop_def py_index_def)

lemma count_list_distinct: "distinct xs \<Longrightarrow> x \<in> set xs \<Longrightarrow> count_list xs x = 1"
  by (induction xs) auto

lemma count_list_absent: "x \<notin> set xs \<Longrightarrow> count_list xs x = 0"
  by (induction xs) auto

text \<open>
  The loop of \<open>next_day\<close>: an object is aged once for each position it occupies, and the
  \<open>i\<close>-th call sees the object as the earlier positions left it.
\<close>

lemma next_day_loop_result:
  "next_day_loop rs (s, out) =
     (\<lambda>r. aged (count_list rs r) (s r),
      out @ concat (map (\<lambda>i. snd (Drink_next_day
                                  (aged (count_list (take i rs) (rs ! i)) (s (rs ! i)))))
                        [0 ..< length rs]))"
proof (induction rs arbitrary: s out)
  case Nil
  then show ?case by (simp add: aged_def)
next
  case (Cons r rs)
  obtain d w where nd: "Drink_next_day (s r) = (d, w)"
    by (cases "Drink_next_day (s r)")
  then have d: "d = fst (Drink_next_day (s r))" and w: "w = snd (Drink_next_day (s r))"
    by simp_all
  have idx: "[0 ..< length (r # rs)] = 0 # map Suc [0 ..< length rs]"
    by (simp add: upt_conv_Cons map_Suc_upt del: upt_Suc)
  have store: "(\<lambda>x. aged (count_list rs x) ((s(r := d)) x)) =
               (\<lambda>x. aged (count_list (r # rs) x) (s x))"
    unfolding d by (rule ext) (rule aged_upd)
  have msgs: "map (\<lambda>i. snd (Drink_next_day
                  (aged (count_list (take i rs) (rs ! i)) ((s(r := d)) (rs ! i)))))
                 [0 ..< length rs] =
               map (\<lambda>i. snd (Drink_next_day
                  (aged (count_list (take (Suc i) (r # rs)) ((r # rs) ! Suc i))
                        (s ((r # rs) ! Suc i)))))
                 [0 ..< length rs]"
    unfolding d using aged_upd [of _ _ s r] by simp
  have "next_day_loop (r # rs) (s, out) = next_day_loop rs (s(r := d), out @ w)"
    by (simp add: nd)
  also have "\<dots> = (\<lambda>x. aged (count_list rs x) ((s(r := d)) x),
      (out @ w) @ concat (map (\<lambda>i. snd (Drink_next_day
                  (aged (count_list (take i rs) (rs ! i)) ((s(r := d)) (rs ! i)))))
                 [0 ..< length rs]))"
    by (rule Cons.IH)
  also have "\<dots> = (\<lambda>x. aged (count_list (r # rs) x) (s x),
      out @ concat (map (\<lambda>i. snd (Drink_next_day
                  (aged (count_list (take i (r # rs)) ((r # rs) ! i)) (s ((r # rs) ! i)))))
                 [0 ..< length (r # rs)]))"
    unfolding store msgs idx by (simp add: w aged_def comp_def)
  finally show ?case .
qed

lemma next_day_result:
  "VendingMachine_next_day m s =
     (m, (\<lambda>r. aged (count_list (content m) r) (s r)),
      concat (map (\<lambda>i. snd (Drink_next_day
                  (aged (count_list (take i (content m)) (content m ! i)) (s (content m ! i)))))
                 [0 ..< length (content m)]) @ [All_aged (name m)])"
  by (simp add: VendingMachine_next_day_def next_day_loop_result)

lemma isinstance_iff: "isinstance d t = (class_of d = t \<or> t = Drink)"
  by (cases "attrs d"; cases t) (simp_all add: isinstance_def)

lemma step_preserves:
  assumes "int (length (content m)) \<le> size_vm m"
  shows "\<exists>m' s'. step c (m, s) = Inr (m', s') \<and> int (length (content m')) \<le> size_vm m'
           \<and> size_vm m' = size_vm m"
proof (cases c)
  case (Call_add d)
  with assms show ?thesis by (simp add: VendingMachine_add_def)
next
  case (Call_remove i)
  with assms show ?thesis by (auto simp: remove_result)
next
  case Call_verify
  have "int (length (filter (\<lambda>r. \<not> Drink_is_expired (s r)) (content m)))
          \<le> int (length (content m))"
    by simp
  with assms have "int (length (filter (\<lambda>r. \<not> Drink_is_expired (s r)) (content m))) \<le> size_vm m"
    by linarith
  with Call_verify show ?thesis by (simp add: verify_result)
next
  case Call_next_day
  with assms show ?thesis
    by (simp add: VendingMachine_next_day_def split: prod.splits)
qed (use assms in simp_all)

lemma run_preserves:
  "int (length (content m)) \<le> size_vm m \<Longrightarrow>
   \<exists>m' s'. run cs (m, s) = Inr (m', s') \<and> int (length (content m')) \<le> size_vm m'
           \<and> size_vm m' = size_vm m"
proof (induction cs arbitrary: m s)
  case Nil
  then show ?case by simp
next
  case (Cons c cs)
  from step_preserves [OF Cons.prems, of c s] obtain m1 s1 where
    st: "step c (m, s) = Inr (m1, s1)" and inv: "int (length (content m1)) \<le> size_vm m1"
    and sz: "size_vm m1 = size_vm m"
    by blast
  from Cons.IH [OF inv, of s1] sz st show ?case by simp
qed

lemma construct_fails_iff:
  "(\<exists>err. construct c = Inl err) = (\<exists>cont. c = Call_DataCola cont \<and> cont \<noteq> ''can'' \<and> cont \<noteq> ''bottle'')"
  by (cases c) (auto simp: DataCola_init_def CONTAINER_SPECS_def)

subsection \<open>Eviction of expired drinks\<close>

text \<open>
  C1. For every machine and store, \<open>verify\<close> raises nothing and removes exactly the items
  whose \<open>is_expired()\<close> is true: the items that stay are the non-expired ones in their
  original order, their number is the original count minus the number of expired items, none
  of them is expired, and the returned list holds exactly the removed items (it is the
  expired items in reverse index order, so as a set, and with multiplicities, it is the
  expired part of the content).
\<close>

theorem verify_removes_expired:
  "VendingMachine_verify m s =
     Inr (rev (filter (\<lambda>r. Drink_is_expired (s r)) (content m)),
          m\<lparr>content := filter (\<lambda>r. \<not> Drink_is_expired (s r)) (content m)\<rparr>,
          [if filter (\<lambda>r. Drink_is_expired (s r)) (content m) \<noteq> []
           then Removed_expired (length (filter (\<lambda>r. Drink_is_expired (s r)) (content m))) (name m)
           else No_expired (name m)])
   \<and> int (length (filter (\<lambda>r. \<not> Drink_is_expired (s r)) (content m))) =
       int (length (content m)) - int (length (filter (\<lambda>r. Drink_is_expired (s r)) (content m)))
   \<and> (\<forall>r \<in> set (filter (\<lambda>r. \<not> Drink_is_expired (s r)) (content m)). \<not> Drink_is_expired (s r))
   \<and> set (rev (filter (\<lambda>r. Drink_is_expired (s r)) (content m))) =
       {r \<in> set (content m). Drink_is_expired (s r)}
   \<and> mset (rev (filter (\<lambda>r. Drink_is_expired (s r)) (content m)))
       + mset (filter (\<lambda>r. \<not> Drink_is_expired (s r)) (content m)) = mset (content m)"
proof -
  have len: "int (length (filter (\<lambda>r. \<not> Drink_is_expired (s r)) (content m))) =
       int (length (content m)) - int (length (filter (\<lambda>r. Drink_is_expired (s r)) (content m)))"
    using sum_length_filter_compl [of "\<lambda>r. Drink_is_expired (s r)" "content m"] by simp
  have ms: "mset (rev (filter (\<lambda>r. Drink_is_expired (s r)) (content m)))
       + mset (filter (\<lambda>r. \<not> Drink_is_expired (s r)) (content m)) = mset (content m)"
    by simp
  show ?thesis
    using len ms by (simp add: verify_result)
qed

theorem verify_removes_expired_witness:
  "VendingMachine_verify campus_machine campus_store =
     Inr ([2, 0], campus_machine\<lparr>content := [1, 3]\<rparr>,
          [Removed_expired 2 ''Campus Vending Machine''])
   \<and> \<not> Drink_is_expired (campus_store 1) \<and> \<not> Drink_is_expired (campus_store 3)"
  using verify_removes_expired [of campus_machine campus_store]
  by (simp add: campus_machine_def campus_store_def Drink_is_expired_def
        Drink_init_def Juice_init_def EnergyDrink_init_def Water_init_def
        Juice_DEFAULT_EXPIRATION_def Water_DEFAULT_EXPIRATION_def)

subsection \<open>The capacity bound\<close>

text \<open>
  C2. A machine created with a positive capacity satisfies \<open>len(content) \<le> size\<close>, and
  every sequence of calls (\<open>add\<close>, \<open>remove\<close>, \<open>verify\<close>, \<open>next_day\<close>, the queries, and the
  ageing of single drinks by the caller) runs to the end without an exception and leaves a
  machine that satisfies the bound, with the capacity it was created with.
\<close>

theorem capacity_invariant:
  "0 < sz \<Longrightarrow>
   \<exists>m s'. run cs (VendingMachine_init sz nm, s) = Inr (m, s')
          \<and> int (length (content m)) \<le> size_vm m \<and> size_vm m = sz"
  using run_preserves [of "VendingMachine_init sz nm" cs s]
  by (simp add: VendingMachine_init_def)

theorem capacity_invariant_witness:
  "(0::int) < 2
   \<and> (\<exists>m s'. run [Call_add 1, Call_add 3, Call_add 0, Call_next_day, Call_verify, Call_remove 0]
                 (VendingMachine_init 2 ''Library Machine'', campus_store) = Inr (m, s')
          \<and> int (length (content m)) \<le> size_vm m \<and> size_vm m = 2)"
  using capacity_invariant
    [of 2 "[Call_add 1, Call_add 3, Call_add 0, Call_next_day, Call_verify, Call_remove 0]"
        "''Library Machine''" campus_store]
  by simp

subsection \<open>Adding a drink\<close>

text \<open>
  C3. \<open>add\<close> below capacity returns \<open>True\<close> and appends the drink: the count grows by one
  and the items before it are the old content. At or above capacity it returns \<open>False\<close> and
  the machine is the one before. The two cases cover every machine, and \<open>add\<close> has no
  raising path: its result is a plain value in both.
\<close>

theorem add_result:
  "(int (length (content m)) < size_vm m \<longrightarrow>
      VendingMachine_add m s d = (True, m\<lparr>content := content m @ [d]\<rparr>, [Added (s d) (name m)])
      \<and> VendingMachine_len (fst (snd (VendingMachine_add m s d))) = VendingMachine_len m + 1
      \<and> take (length (content m)) (content (fst (snd (VendingMachine_add m s d)))) = content m)
   \<and> (size_vm m \<le> int (length (content m)) \<longrightarrow>
      VendingMachine_add m s d = (False, m, [Cannot_add (s d) (name m)]))"
  by (simp add: VendingMachine_add_def VendingMachine_len_def)

theorem add_result_witness:
  "int (length (content campus_machine)) < size_vm campus_machine
   \<and> VendingMachine_add campus_machine campus_store 4 =
       (True, campus_machine\<lparr>content := [0, 1, 2, 3, 4]\<rparr>,
        [Added (Water_init 500 True) ''Campus Vending Machine''])
   \<and> size_vm (campus_machine\<lparr>size_vm := 4\<rparr>)
       \<le> int (length (content (campus_machine\<lparr>size_vm := 4\<rparr>)))
   \<and> VendingMachine_add (campus_machine\<lparr>size_vm := 4\<rparr>) campus_store 4 =
       (False, campus_machine\<lparr>size_vm := 4\<rparr>,
        [Cannot_add (Water_init 500 True) ''Campus Vending Machine''])"
  using add_result [of campus_machine campus_store 4]
    add_result [of "campus_machine\<lparr>size_vm := 4\<rparr>" campus_store 4]
  by (simp add: campus_machine_def campus_store_def)

subsection \<open>Removing by index\<close>

text \<open>
  C4. For every integer \<open>i\<close>, \<open>remove(i)\<close> with \<open>0 \<le> i < len(content)\<close> returns the item at
  index \<open>i\<close> and leaves the items before and after it in order, one fewer in all; with any
  other index (a negative one too) it returns \<open>None\<close>, prints the invalid-index notice and
  leaves the machine as it was. Neither case raises.
\<close>

theorem remove_by_index:
  "(0 \<le> i \<and> i < int (length (content m)) \<longrightarrow>
      VendingMachine_remove m s i =
        Inr (Some (content m ! nat i),
             m\<lparr>content := take (nat i) (content m) @ drop (Suc (nat i)) (content m)\<rparr>,
             [Removed (s (content m ! nat i)) (name m)])
      \<and> int (length (take (nat i) (content m) @ drop (Suc (nat i)) (content m))) =
          int (length (content m)) - 1)
   \<and> (\<not> (0 \<le> i \<and> i < int (length (content m))) \<longrightarrow>
      VendingMachine_remove m s i = Inr (None, m, [Invalid_index i]))"
  by (auto simp: remove_result)

theorem remove_by_index_witness:
  "0 \<le> (1::int) \<and> 1 < int (length (content campus_machine))
   \<and> VendingMachine_remove campus_machine campus_store 1 =
       Inr (Some 1, campus_machine\<lparr>content := [0, 2, 3]\<rparr>,
            [Removed (Juice_init 500 ''Grape'') ''Campus Vending Machine''])
   \<and> \<not> (0 \<le> (4::int) \<and> 4 < int (length (content campus_machine)))
   \<and> VendingMachine_remove campus_machine campus_store 4 =
       Inr (None, campus_machine, [Invalid_index 4])
   \<and> \<not> (0 \<le> (- 1::int) \<and> - 1 < int (length (content campus_machine)))
   \<and> VendingMachine_remove campus_machine campus_store (- 1) =
       Inr (None, campus_machine, [Invalid_index (- 1)])"
  using remove_by_index [of 1 campus_machine campus_store]
    remove_by_index [of 4 campus_machine campus_store]
    remove_by_index [of "- 1" campus_machine campus_store]
  by (simp add: campus_machine_def campus_store_def)

subsection \<open>A day passes in the machine\<close>

text \<open>
  C5. The machine's \<open>next_day\<close> calls \<open>next_day\<close> on the object at each index in index order
  and removes nothing: the machine after the call is the machine before it (same references,
  same order, same count), each object has been aged once for each position it occupies
  (exactly once when the content has no repeated reference), objects outside the machine
  are untouched, the warnings appear in index order, and an expired item is still in the
  content and still expired afterwards.
\<close>

theorem next_day_keeps_items:
  "VendingMachine_next_day m s =
     (m, (\<lambda>r. aged (count_list (content m) r) (s r)),
      concat (map (\<lambda>i. snd (Drink_next_day
                  (aged (count_list (take i (content m)) (content m ! i)) (s (content m ! i)))))
                 [0 ..< length (content m)]) @ [All_aged (name m)])
   \<and> (\<forall>r \<in> set (content m). Drink_is_expired (s r) \<longrightarrow>
         r \<in> set (content (fst (VendingMachine_next_day m s)))
         \<and> Drink_is_expired (fst (snd (VendingMachine_next_day m s)) r))
   \<and> (distinct (content m) \<longrightarrow>
        (\<forall>r \<in> set (content m).
           fst (snd (VendingMachine_next_day m s)) r = fst (Drink_next_day (s r))))
   \<and> (\<forall>r. r \<notin> set (content m) \<longrightarrow> fst (snd (VendingMachine_next_day m s)) r = s r)"
proof -
  have stay: "\<forall>r \<in> set (content m). Drink_is_expired (s r) \<longrightarrow>
         r \<in> set (content (fst (VendingMachine_next_day m s)))
         \<and> Drink_is_expired (fst (snd (VendingMachine_next_day m s)) r)"
    by (simp add: next_day_result aged_expired)
  have once: "distinct (content m) \<longrightarrow>
        (\<forall>r \<in> set (content m).
           fst (snd (VendingMachine_next_day m s)) r = fst (Drink_next_day (s r)))"
    by (simp add: next_day_result count_list_distinct aged_def)
  have frame: "\<forall>r. r \<notin> set (content m) \<longrightarrow> fst (snd (VendingMachine_next_day m s)) r = s r"
    by (simp add: next_day_result count_list_absent aged_def)
  from stay once frame show ?thesis
    by (simp only: next_day_result simp_thms)
qed

theorem next_day_keeps_items_witness:
  "distinct (content campus_machine)
   \<and> 0 \<in> set (content campus_machine) \<and> Drink_is_expired (campus_store 0)
   \<and> 4 \<notin> set (content campus_machine)
   \<and> fst (VendingMachine_next_day campus_machine campus_store) = campus_machine
   \<and> Drink_is_expired (fst (snd (VendingMachine_next_day campus_machine campus_store)) 0)
   \<and> fst (snd (VendingMachine_next_day campus_machine campus_store)) 1 =
       fst (Drink_next_day (campus_store 1))
   \<and> fst (snd (VendingMachine_next_day campus_machine campus_store)) 4 = campus_store 4"
proof -
  note claim = next_day_keeps_items [of campus_machine campus_store]
  have dist: "distinct (content campus_machine)"
    and in0: "0 \<in> set (content campus_machine)"
    and in1: "1 \<in> set (content campus_machine)"
    and out4: "4 \<notin> set (content campus_machine)"
    by (simp_all add: campus_machine_def)
  have exp0: "Drink_is_expired (campus_store 0)"
    by (simp add: campus_store_def Drink_is_expired_def Drink_init_def)
  from claim have same: "fst (VendingMachine_next_day campus_machine campus_store) = campus_machine"
    by simp
  from claim in0 exp0
  have still: "Drink_is_expired (fst (snd (VendingMachine_next_day campus_machine campus_store)) 0)"
    by blast
  from claim dist in1
  have once: "fst (snd (VendingMachine_next_day campus_machine campus_store)) 1 =
       fst (Drink_next_day (campus_store 1))"
    by blast
  from claim out4
  have frame: "fst (snd (VendingMachine_next_day campus_machine campus_store)) 4 = campus_store 4"
    by blast
  from dist in0 exp0 out4 same still once frame show ?thesis
    by (simp only: simp_thms)
qed

subsection \<open>Finding drinks by type\<close>

text \<open>
  C6, as the code has it. \<open>find_by_type\<close> returns, in container order, the items that are
  instances of the given class in the sense of \<open>isinstance\<close>: the items whose own class is
  the given one, and every item when the given class is the base class \<open>Drink\<close>. For each
  of the four subclasses this is the filter on the concrete variant that the spec words.
\<close>

theorem find_by_type_isinstance:
  "VendingMachine_find_by_type m s t =
     filter (\<lambda>r. class_of (s r) = t \<or> t = Drink) (content m)
   \<and> (t \<noteq> Drink \<longrightarrow> VendingMachine_find_by_type m s t = findByVariant_spec m s t)
   \<and> VendingMachine_find_by_type m s Drink = content m"
  by (simp add: VendingMachine_find_by_type_def findByVariant_spec_def isinstance_iff
        del: class_of.simps)

theorem find_by_type_isinstance_witness:
  "Juice \<noteq> Drink
   \<and> VendingMachine_find_by_type campus_machine campus_store Juice =
       findByVariant_spec campus_machine campus_store Juice
   \<and> findByVariant_spec campus_machine campus_store Juice = [1]"
  using find_by_type_isinstance [of campus_machine campus_store Juice]
  by (simp add: findByVariant_spec_def campus_machine_def campus_store_def
        Drink_init_def Juice_init_def EnergyDrink_init_def Water_init_def)

text \<open>
  The claim as the spec states it fails for the base class: on the stocked machine a query
  with \<open>Drink\<close> returns all four items, where the filter on the concrete variant selects
  only the generic drink at index 0.
\<close>

theorem find_by_type_base_counterexample:
  "VendingMachine_find_by_type campus_machine campus_store Drink = [0, 1, 2, 3]
   \<and> findByVariant_spec campus_machine campus_store Drink = [0]
   \<and> VendingMachine_find_by_type campus_machine campus_store Drink
       \<noteq> findByVariant_spec campus_machine campus_store Drink"
  by (simp add: VendingMachine_find_by_type_def findByVariant_spec_def isinstance_def
        campus_machine_def campus_store_def
        Drink_init_def Juice_init_def EnergyDrink_init_def Water_init_def)

subsection \<open>A day passes for one drink\<close>

text \<open>
  C7. \<open>Drink.next_day\<close> decrements \<open>expiration\<close> by exactly 1 when it is positive, and
  otherwise leaves the drink unchanged and prints the already-expired warning with the class
  name. So from a non-negative \<open>expiration\<close> it never goes below 0 (after \<open>n\<close> calls it is
  \<open>max 0 (expiration - n)\<close>), and once it is 0 any number of further calls leave it at 0.
\<close>

theorem next_day_floor:
  "(0 < expiration d \<longrightarrow>
      Drink_next_day d = (d\<lparr>expiration := expiration d - 1\<rparr>, []))
   \<and> (expiration d \<le> 0 \<longrightarrow>
      Drink_next_day d = (d, [Warning_already_expired (class_of d)]))
   \<and> (0 \<le> expiration d \<longrightarrow> 0 \<le> expiration (aged n d))
   \<and> (0 \<le> expiration d \<longrightarrow> expiration (aged n d) = max 0 (expiration d - int n))
   \<and> (expiration (aged k d) = 0 \<longrightarrow> expiration (aged (k + n) d) = 0)"
proof -
  have step: "(0 < expiration d \<longrightarrow>
      Drink_next_day d = (d\<lparr>expiration := expiration d - 1\<rparr>, []))
   \<and> (expiration d \<le> 0 \<longrightarrow>
      Drink_next_day d = (d, [Warning_already_expired (class_of d)]))"
    by (simp add: Drink_next_day_def)
  have floor: "0 \<le> expiration d \<longrightarrow> expiration (aged n d) = max 0 (expiration d - int n)"
    by (simp add: expiration_aged)
  have stay: "expiration (aged k d) = 0 \<longrightarrow> expiration (aged (k + n) d) = 0"
    by (simp add: aged_add expiration_aged [of n "aged k d"])
  from step floor stay show ?thesis by simp
qed

theorem next_day_floor_witness:
  "0 < expiration (Drink_init 500 2)
   \<and> Drink_next_day (Drink_init 500 2) = (Drink_init 500 1, [])
   \<and> expiration (aged 2 (Drink_init 500 2)) = 0
   \<and> expiration (aged (2 + 5) (Drink_init 500 2)) = 0
   \<and> expiration (Juice_init 500 ''Orange'') = 7
   \<and> expiration (aged 8 (Juice_init 500 ''Orange'')) = 0
   \<and> expiration (Drink_init 100 0) \<le> 0
   \<and> Drink_next_day (Drink_init 100 0) = (Drink_init 100 0, [Warning_already_expired Drink])"
  using next_day_floor [of "Drink_init 500 2" 2 0]
    next_day_floor [of "Drink_init 500 2" 5 2]
    next_day_floor [of "Juice_init 500 ''Orange''" 8 0]
    next_day_floor [of "Drink_init 100 0" 0 0]
  by (simp add: Drink_init_def Juice_init_def Juice_DEFAULT_EXPIRATION_def)

subsection \<open>DataCola containers\<close>

text \<open>
  C8. \<open>DataCola('can')\<close> has volume 330 and expiration 60, \<open>DataCola('bottle')\<close> has volume
  500 and expiration 30, and every other container string raises (the \<open>ValueError\<close> of the
  source, the spec's InvalidContainerKind) instead of yielding a drink.
\<close>

theorem DataCola_init_kinds:
  "DataCola_init ''can'' = Inr \<lparr>volume = 330, expiration = 60, attrs = DataCola_attrs ''can''\<rparr>
   \<and> DataCola_init ''bottle'' =
       Inr \<lparr>volume = 500, expiration = 30, attrs = DataCola_attrs ''bottle''\<rparr>
   \<and> (cont \<noteq> ''can'' \<and> cont \<noteq> ''bottle'' \<longrightarrow> DataCola_init cont = Inl (ValueError cont))"
  by (simp add: DataCola_init_def CONTAINER_SPECS_def Drink_init_def)

theorem DataCola_init_kinds_witness:
  "''large'' \<noteq> ''can'' \<and> ''large'' \<noteq> ''bottle''
   \<and> DataCola_init ''large'' = Inl (ValueError ''large'')"
  using DataCola_init_kinds [of "''large''"] by simp

subsection \<open>Expiry\<close>

text \<open>
  C9. For a drink of any class, with any attributes and any value of \<open>expiration\<close>,
  \<open>is_expired()\<close> is true exactly when \<open>expiration \<le> 0\<close>. It is a function of the drink
  alone and returns only the truth value: there is no object after the call other than the
  one before it.
\<close>

theorem is_expired_iff:
  "Drink_is_expired \<lparr>volume = vol, expiration = exp, attrs = a\<rparr> = (exp \<le> 0)
   \<and> Drink_is_expired d = (expiration d \<le> 0)"
  by (simp add: Drink_is_expired_def)

subsection \<open>Construction without validation\<close>

text \<open>
  C10. For all integers \<open>vol\<close> and \<open>exp\<close>, zero and negative ones included, \<open>Drink(vol, exp)\<close>
  and \<open>EnergyDrink(vol, exp, caffeine, sugarfree)\<close> succeed and store the values as given,
  so the new drink is expired at once exactly when \<open>exp \<le> 0\<close>; and a constructor call of
  the module fails only if it is a \<open>DataCola\<close> call with a container other than \<open>'can'\<close> and
  \<open>'bottle'\<close>.
\<close>

theorem unvalidated_construction:
  "Drink_init vol exp = \<lparr>volume = vol, expiration = exp, attrs = Drink_attrs\<rparr>
   \<and> EnergyDrink_init vol exp caffeine sugarfree =
       \<lparr>volume = vol, expiration = exp, attrs = EnergyDrink_attrs caffeine sugarfree\<rparr>
   \<and> construct (Call_Drink vol exp) = Inr (Drink_init vol exp)
   \<and> construct (Call_EnergyDrink vol exp caffeine sugarfree) =
       Inr (EnergyDrink_init vol exp caffeine sugarfree)
   \<and> Drink_is_expired (Drink_init vol exp) = (exp \<le> 0)
   \<and> Drink_is_expired (EnergyDrink_init vol exp caffeine sugarfree) = (exp \<le> 0)
   \<and> ((\<exists>err. construct c = Inl err) =
        (\<exists>cont. c = Call_DataCola cont \<and> cont \<noteq> ''can'' \<and> cont \<noteq> ''bottle''))"
  by (simp add: construct_fails_iff Drink_init_def EnergyDrink_init_def Drink_is_expired_def)

end
